theory Spec2Isabelle
  imports Main
begin

section \<open>Values of the program\<close>

text \<open>
  The workflow declares its state as \<^verbatim>\<open>z.any()\<close> and the helper takes
  \<^verbatim>\<open>message: any\<close>, so a message is an arbitrary piece of JavaScript data.
  The values below are the data values of the language: the two nullish values,
  booleans, numbers, strings, arrays and plain objects (an object is its list of
  own properties, the first entry for a key being the one that is read).
  Strings are character lists; the only string operation of the program compares a
  prefix of five ASCII characters. Numbers are never inspected by the program.
  Function-valued properties are not data and are not modelled.
\<close>

datatype jsval =
    JUndefined
  | JNull
  | JBool bool
  | JNum int
  | JStr string
  | JArr "jsval list"
  | JObj "(string \<times> jsval) list"

datatype js_error = TypeError

text \<open>Truthiness, as a condition applies it to a value.\<close>

fun truthy :: "jsval \<Rightarrow> bool" where
  "truthy JUndefined = False"
| "truthy JNull = False"
| "truthy (JBool b) = b"
| "truthy (JNum n) = (n \<noteq> 0)"
| "truthy (JStr s) = (s \<noteq> [])"
| "truthy (JArr xs) = True"
| "truthy (JObj kvs) = True"

text \<open>
  Reading a property that is not a built-in one: an own property of an object, and
  \<^verbatim>\<open>undefined\<close> on every other value. The program reads \<^verbatim>\<open>parts\<close> and
  \<^verbatim>\<open>type\<close> only, which no primitive, array or object prototype defines.
\<close>

fun get_prop :: "jsval \<Rightarrow> string \<Rightarrow> jsval" where
  "get_prop (JObj kvs) k = (case map_of kvs k of None \<Rightarrow> JUndefined | Some v \<Rightarrow> v)"
| "get_prop v k = JUndefined"

text \<open>The member expression \<^verbatim>\<open>v.k\<close>: a TypeError on a nullish value.\<close>

fun member :: "jsval \<Rightarrow> string \<Rightarrow> js_error + jsval" where
  "member JUndefined k = Inl TypeError"
| "member JNull k = Inl TypeError"
| "member v k = Inr (get_prop v k)"

text \<open>\<^verbatim>\<open>String.prototype.startsWith\<close> with its default position 0.\<close>

definition startsWith :: "string \<Rightarrow> string \<Rightarrow> bool" where
  "startsWith s p = (take (length p) s = p)"

text \<open>
  The method call \<^verbatim>\<open>t.startsWith(p)\<close> on an arbitrary value: only a string
  has the method; on a nullish value the member read fails, on any other value the
  member is \<^verbatim>\<open>undefined\<close> and calling it fails.
\<close>

fun call_startsWith :: "jsval \<Rightarrow> string \<Rightarrow> js_error + jsval" where
  "call_startsWith (JStr s) p = Inr (JBool (startsWith s p))"
| "call_startsWith v p = Inl TypeError"

text \<open>
  \<^verbatim>\<open>Array.prototype.some\<close>: the elements in index order, stopping at the first
  one for which the callback returns a truthy value; an exception of the callback
  leaves the loop.
\<close>

fun Array_some :: "(jsval \<Rightarrow> js_error + jsval) \<Rightarrow> jsval list \<Rightarrow> js_error + jsval" where
  "Array_some cb [] = Inr (JBool False)"
| "Array_some cb (x # xs) =
     (case cb x of
        Inl e \<Rightarrow> Inl e
      | Inr v \<Rightarrow> if truthy v then Inr (JBool True) else Array_some cb xs)"

text \<open>The method call \<^verbatim>\<open>a.some(cb)\<close> on an arbitrary value.\<close>

fun call_some :: "jsval \<Rightarrow> (jsval \<Rightarrow> js_error + jsval) \<Rightarrow> js_error + jsval" where
  "call_some (JArr xs) cb = Array_some cb xs"
| "call_some v cb = Inl TypeError"

section \<open>The helper \<^verbatim>\<open>isToolCall\<close>\<close>

text \<open>
  \<^verbatim>\<open>
  isToolCall(message: any) {
    return message?.parts.some((part: any) => part.type.startsWith('tool-'));
  }
  \<close>
  The optional chain ends the whole expression with \<^verbatim>\<open>undefined\<close> when
  \<^verbatim>\<open>message\<close> is nullish; nothing after \<^verbatim>\<open>?.\<close> is guarded.
\<close>

definition part_is_tool :: "jsval \<Rightarrow> js_error + jsval" where
  "part_is_tool part =
     (case member part ''type'' of
        Inl e \<Rightarrow> Inl e
      | Inr t \<Rightarrow> call_startsWith t ''tool-'')"

definition isToolCall :: "jsval \<Rightarrow> js_error + jsval" where
  "isToolCall message =
     (if message = JUndefined \<or> message = JNull then Inr JUndefined
      else case member message ''parts'' of
             Inl e \<Rightarrow> Inl e
           | Inr parts \<Rightarrow> call_some parts part_is_tool)"

text \<open>A call of the helper: a parameter without an argument is \<^verbatim>\<open>undefined\<close>.\<close>

fun isToolCall_call :: "jsval list \<Rightarrow> js_error + jsval" where
  "isToolCall_call [] = isToolCall JUndefined"
| "isToolCall_call (message # rest) = isToolCall message"

section \<open>The data model of messages\<close>

text \<open>
  A Part is an object tagged by a \<^verbatim>\<open>type\<close> string; a Message is an object
  whose \<^verbatim>\<open>parts\<close> is an array of Parts. These predicates say which values
  are Messages; the helper itself accepts any value.
\<close>

definition is_part :: "jsval \<Rightarrow> bool" where
  "is_part p =
     (case p of
        JObj kvs \<Rightarrow> (case get_prop p ''type'' of JStr t \<Rightarrow> True | _ \<Rightarrow> False)
      | _ \<Rightarrow> False)"

definition is_message :: "jsval \<Rightarrow> bool" where
  "is_message m =
     (case m of
        JObj kvs \<Rightarrow> (case get_prop m ''parts'' of JArr ps \<Rightarrow> list_all is_part ps | _ \<Rightarrow> False)
      | _ \<Rightarrow> False)"

definition msg_parts :: "jsval \<Rightarrow> jsval list" where
  "msg_parts m = (case get_prop m ''parts'' of JArr ps \<Rightarrow> ps | _ \<Rightarrow> [])"

text \<open>A part whose \<^verbatim>\<open>type\<close> is a string beginning with \<^verbatim>\<open>tool-\<close>.\<close>

definition is_tool_part :: "jsval \<Rightarrow> bool" where
  "is_tool_part p = (case get_prop p ''type'' of JStr t \<Rightarrow> startsWith t ''tool-'' | _ \<Rightarrow> False)"

definition has_tool_part :: "jsval \<Rightarrow> bool" where
  "has_tool_part m = list_ex is_tool_part (msg_parts m)"

text \<open>Whether a call returned one of the two boolean values.\<close>

fun returns_boolean :: "js_error + jsval \<Rightarrow> bool" where
  "returns_boolean (Inr (JBool b)) = True"
| "returns_boolean r = False"

section \<open>The tool \<^verbatim>\<open>GetWeather\<close>\<close>

record ToolResult =
  type :: string
  data :: jsval

text \<open>
  \<^verbatim>\<open>
  async execute(): Promise<ToolResult> {
    return { type: 'text', data: 'Mostly sunny, 14C, rain in the afternoon.' };
  }
  \<close>
  The method declares no parameter, so whatever arguments a caller passes are
  dropped. The result is the settled promise: \<open>Inr\<close> when fulfilled, \<open>Inl\<close> when
  rejected.
\<close>

definition GetWeather_execute :: "jsval list \<Rightarrow> js_error + ToolResult" where
  "GetWeather_execute args =
     Inr \<lparr>type = ''text'', data = JStr ''Mostly sunny, 14C, rain in the afternoon.''\<rparr>"

section \<open>The tool-dispatch collaborator\<close>

text \<open>
  Modelled from the spec: \<^verbatim>\<open>DelegateToolCall\<close> of the framework package
  \<^verbatim>\<open>@loopstack/ai-module\<close> is not among the sources; the tests replace it by
  a mock. The spec says that the dispatcher inspects each \<^verbatim>\<open>tool-<Name>\<close>
  part, resolves it to the matching registered tool by name, executes it, and returns
  one result message whose parts carry the state \<^verbatim>\<open>output-available\<close> and the
  tool's output \<^verbatim>\<open>{type, value}\<close>, one entry per tool-call part, in input
  order and with the tool-call ids kept; a failure during dispatch fails the run.
  The registry maps a tool name to the tool's \<^verbatim>\<open>execute\<close>.
\<close>

datatype dispatch_error = UnknownTool string | ToolFailed js_error

type_synonym registry = "(string \<times> (jsval list \<Rightarrow> js_error + ToolResult)) list"

text \<open>
  Modelled from the spec: the entry of the result message for the tool-call part
  \<open>p\<close> whose tool returned \<open>r\<close>. \<^verbatim>\<open>DelegateToolCall\<close> is missing; the
  fields are those of the spec's data model of a tool part after execution.
\<close>

definition output_part :: "jsval \<Rightarrow> ToolResult \<Rightarrow> jsval" where
  "output_part p r =
     JObj [(''type'', get_prop p ''type''),
           (''toolCallId'', get_prop p ''toolCallId''),
           (''input'', get_prop p ''input''),
           (''state'', JStr ''output-available''),
           (''output'', JObj [(''type'', JStr (type r)), (''value'', data r)])]"

text \<open>
  Modelled from the spec: resolving one tool-call part by the name after
  \<^verbatim>\<open>tool-\<close> and executing the tool on the part's input.
  \<^verbatim>\<open>DelegateToolCall\<close> is missing.
\<close>

definition execute_part :: "registry \<Rightarrow> jsval \<Rightarrow> dispatch_error + jsval" where
  "execute_part tools p =
     (case get_prop p ''type'' of
        JStr t \<Rightarrow>
          (case map_of tools (drop (length ''tool-'') t) of
             None \<Rightarrow> Inl (UnknownTool (drop (length ''tool-'') t))
           | Some execute \<Rightarrow>
               (case execute [get_prop p ''input''] of
                  Inl e \<Rightarrow> Inl (ToolFailed e)
                | Inr r \<Rightarrow> Inr (output_part p r)))
      | _ \<Rightarrow> Inl (UnknownTool []))"

text \<open>
  Modelled from the spec: the tool-call parts of a message executed in input order,
  the first failure ending the dispatch. \<^verbatim>\<open>DelegateToolCall\<close> is missing.
\<close>

fun dispatch_parts :: "registry \<Rightarrow> jsval list \<Rightarrow> dispatch_error + jsval list" where
  "dispatch_parts tools [] = Inr []"
| "dispatch_parts tools (p # ps) =
     (if is_tool_part p then
        (case execute_part tools p of
           Inl e \<Rightarrow> Inl e
         | Inr out \<Rightarrow>
             (case dispatch_parts tools ps of
                Inl e \<Rightarrow> Inl e
              | Inr outs \<Rightarrow> Inr (out # outs)))
      else dispatch_parts tools ps)"

text \<open>
  Modelled from the spec: \<^verbatim>\<open>DelegateToolCall.execute\<close>, missing from the
  sources; the data of its result is one message holding the outputs.
\<close>

definition DelegateToolCall_execute :: "registry \<Rightarrow> jsval \<Rightarrow> dispatch_error + jsval" where
  "DelegateToolCall_execute tools message =
     (case dispatch_parts tools (msg_parts message) of
        Inl e \<Rightarrow> Inl e
      | Inr outs \<Rightarrow> Inr (JObj [(''parts'', JArr outs)]))"

text \<open>
  The tool the workflow class registers for the language model, under the name the
  tool-call parts of the tests carry.
\<close>

definition registered_tools :: registry where
  "registered_tools = [(''GetWeather'', GetWeather_execute)]"

section \<open>The loop controller\<close>

text \<open>
  Modelled from the spec: the transition table \<^verbatim>\<open>tool-call.workflow.yaml\<close> and
  the engine that runs it (\<^verbatim>\<open>WorkflowProcessorService\<close> of
  \<^verbatim>\<open>@loopstack/core\<close>) are not among the sources. The README quotes the two
  routing transitions,
  \<^verbatim>\<open>
  - id: route_with_tool_calls
    from: prompt_executed
    to: ready
    if: "{{ isToolCall llmResponse }}"
  - id: route_without_tool_calls
    from: prompt_executed
    to: end
  \<close>
  and the two calls \<^verbatim>\<open>aiGenerateText\<close> (assigning \<^verbatim>\<open>llmResponse\<close>) and
  \<^verbatim>\<open>delegateToolCall\<close> (with \<^verbatim>\<open>message: ${ llmResponse }\<close>, assigning
  \<^verbatim>\<open>toolCallResult\<close>). The spec gives the rest: \<^verbatim>\<open>ready\<close> is the initial
  place; from \<^verbatim>\<open>ready\<close> the controller calls the language model and moves
  unconditionally to \<^verbatim>\<open>prompt_executed\<close>; from \<^verbatim>\<open>prompt_executed\<close> it
  takes the first route whose condition holds; \<^verbatim>\<open>end\<close> is terminal.
  The two collaborators are parameters: \<open>llm n\<close> is the data of the response to the
  \<open>n\<close>-th call of the language model (counted from 0), \<open>dsp m\<close> the data of the
  dispatcher's response to the message \<open>m\<close>. A collaborator that fails instead of
  responding fails the run inside the engine; that is outside this model, as is
  the document-creation collaborator, whose result the controller never reads.
\<close>

datatype place = P_ready | P_prompt_executed | P_end

datatype tool_ref = T_aiGenerateText | T_delegateToolCall

datatype condition = If_isToolCall_llmResponse

record transition =
  tr_id :: string
  tr_from :: place
  tr_to :: place
  tr_if :: "condition option"
  tr_call :: "tool_ref list"

text \<open>
  Modelled from the spec: the transition table of \<^verbatim>\<open>tool-call.workflow.yaml\<close>,
  missing from the sources. The two routes are the ones the README quotes; the
  first transition is the spec's unconditional step from \<^verbatim>\<open>ready\<close>.
\<close>

definition transitions :: "transition list" where
  "transitions =
     [\<lparr>tr_id = ''llm_turn'', tr_from = P_ready, tr_to = P_prompt_executed,
       tr_if = None, tr_call = [T_aiGenerateText]\<rparr>,
      \<lparr>tr_id = ''route_with_tool_calls'', tr_from = P_prompt_executed, tr_to = P_ready,
       tr_if = Some If_isToolCall_llmResponse, tr_call = [T_delegateToolCall]\<rparr>,
      \<lparr>tr_id = ''route_without_tool_calls'', tr_from = P_prompt_executed, tr_to = P_end,
       tr_if = None, tr_call = []\<rparr>]"

text \<open>A call of a collaborator, as a mock of the test suite records it.\<close>

datatype tool_call = AiGenerateText_call | DelegateToolCall_call jsval

text \<open>
  The state of a run: the current place, the two fields of the workflow state
  declared with \<^verbatim>\<open>@WithState\<close>, and what an observer of the run records: the
  calls of the collaborators in order, and the places visited.
\<close>

record Run =
  place :: place
  llmResponse :: jsval
  toolCallResult :: jsval
  calls :: "tool_call list"
  history :: "place list"

definition initial :: Run where
  "initial = \<lparr>place = P_ready, llmResponse = JUndefined, toolCallResult = JUndefined,
              calls = [], history = [P_ready]\<rparr>"

definition llm_calls :: "Run \<Rightarrow> nat" where
  "llm_calls r = length (filter (\<lambda>c. c = AiGenerateText_call) (calls r))"

fun dispatched :: "tool_call list \<Rightarrow> jsval list" where
  "dispatched [] = []"
| "dispatched (AiGenerateText_call # cs) = dispatched cs"
| "dispatched (DelegateToolCall_call m # cs) = m # dispatched cs"

definition dispatch_calls :: "Run \<Rightarrow> jsval list" where
  "dispatch_calls r = dispatched (calls r)"

fun call_tool :: "(nat \<Rightarrow> jsval) \<Rightarrow> (jsval \<Rightarrow> jsval) \<Rightarrow> tool_ref \<Rightarrow> Run \<Rightarrow> Run" where
  "call_tool llm dsp T_aiGenerateText r =
     r\<lparr>llmResponse := llm (llm_calls r), calls := calls r @ [AiGenerateText_call]\<rparr>"
| "call_tool llm dsp T_delegateToolCall r =
     r\<lparr>toolCallResult := dsp (llmResponse r),
       calls := calls r @ [DelegateToolCall_call (llmResponse r)]\<rparr>"

text \<open>
  Modelled from the spec: the engine's evaluation of the condition of a transition on
  the workflow state. The engine is missing; a transition without \<^verbatim>\<open>if\<close> is
  always enabled, and the one condition of the table calls the helper on
  \<^verbatim>\<open>llmResponse\<close> and takes the result as a condition.
\<close>

fun holds :: "condition option \<Rightarrow> Run \<Rightarrow> js_error + bool" where
  "holds None r = Inr True"
| "holds (Some If_isToolCall_llmResponse) r =
     (case isToolCall_call [llmResponse r] of
        Inl e \<Rightarrow> Inl e
      | Inr v \<Rightarrow> Inr (truthy v))"

text \<open>
  Modelled from the spec: the engine's choice of a transition, missing from the
  sources: the first one of the table that leaves the current place and whose
  condition holds.
\<close>

fun select :: "transition list \<Rightarrow> Run \<Rightarrow> js_error + transition option" where
  "select [] r = Inr None"
| "select (t # ts) r =
     (if tr_from t = place r then
        (case holds (tr_if t) r of
           Inl e \<Rightarrow> Inl e
         | Inr b \<Rightarrow> if b then Inr (Some t) else select ts r)
      else select ts r)"

datatype outcome = Next Run | Halt | Fail js_error

text \<open>
  Modelled from the spec: one step of the engine, missing from the sources: the
  calls of the chosen transition in order, then the move to its target place. No
  transition leaves \<^verbatim>\<open>end\<close>, where the step halts.
\<close>

definition step :: "(nat \<Rightarrow> jsval) \<Rightarrow> (jsval \<Rightarrow> jsval) \<Rightarrow> Run \<Rightarrow> outcome" where
  "step llm dsp r =
     (case select transitions r of
        Inl e \<Rightarrow> Fail e
      | Inr None \<Rightarrow> Halt
      | Inr (Some t) \<Rightarrow>
          Next ((fold (call_tool llm dsp) (tr_call t) r)
                  \<lparr>place := tr_to t, history := history r @ [tr_to t]\<rparr>))"

text \<open>
  Modelled from the spec: a run of the engine's processor, missing from the
  sources: transitions are taken until none is enabled. The loop has no bound, so
  the run is a partial function: \<open>None\<close> is the run that never ends,
  \<open>Some (Inl e)\<close> the run that fails, \<open>Some (Inr r)\<close> the run that ends in \<open>r\<close>.
\<close>

partial_function (option) process ::
  "(nat \<Rightarrow> jsval) \<Rightarrow> (jsval \<Rightarrow> jsval) \<Rightarrow> Run \<Rightarrow> (js_error + Run) option" where
  "process llm dsp r =
     (case step llm dsp r of
        Next r' \<Rightarrow> process llm dsp r'
      | Halt \<Rightarrow> Some (Inr r)
      | Fail e \<Rightarrow> Some (Inl e))"

text \<open>
  Modelled from the spec: the outcome of taking \<open>n\<close> transitions in a row with the
  step above.
\<close>

fun steps :: "nat \<Rightarrow> (nat \<Rightarrow> jsval) \<Rightarrow> (jsval \<Rightarrow> jsval) \<Rightarrow> Run \<Rightarrow> outcome" where
  "steps 0 llm dsp r = Next r"
| "steps (Suc n) llm dsp r =
     (case step llm dsp r of
        Next r' \<Rightarrow> steps n llm dsp r'
      | Halt \<Rightarrow> Halt
      | Fail e \<Rightarrow> Fail e)"

section \<open>Messages of the test suite\<close>

text \<open>The two messages of the helper's unit test.\<close>

definition messageWithToolCall :: jsval where
  "messageWithToolCall =
     JObj [(''parts'',
            JArr [JObj [(''type'', JStr ''tool-GetWeather''), (''toolCallId'', JStr ''123'')]])]"

definition messageWithoutToolCall :: jsval where
  "messageWithoutToolCall =
     JObj [(''parts'', JArr [JObj [(''type'', JStr ''text''), (''text'', JStr ''Hello'')]])]"

text \<open>
  The responses and the dispatch result of the three workflow tests. The degree sign
  of the sources is the character with code \<open>0xB0\<close>.
\<close>

definition mockLlmResponseWithToolCall :: jsval where
  "mockLlmResponseWithToolCall =
     JObj [(''role'', JStr ''assistant''),
           (''parts'',
            JArr [JObj [(''type'', JStr ''tool-GetWeather''),
                        (''toolCallId'', JStr ''tool_call_1''),
                        (''input'', JObj [(''location'', JStr ''Berlin'')]),
                        (''state'', JStr ''input-available'')]])]"

definition mockToolCallResult :: jsval where
  "mockToolCallResult =
     JObj [(''parts'',
            JArr [JObj [(''type'', JStr ''tool-GetWeather''),
                        (''toolCallId'', JStr ''tool_call_1''),
                        (''input'', JObj [(''location'', JStr ''Berlin'')]),
                        (''state'', JStr ''output-available''),
                        (''output'',
                         JObj [(''type'', JStr ''text''),
                               (''value'',
                                JStr (''Weather in Berlin: 15'' @ [CHR 0xB0]
                                        @ ''C, partly cloudy''))])]])]"

definition mockFinalLlmResponse :: jsval where
  "mockFinalLlmResponse =
     JObj [(''role'', JStr ''assistant''),
           (''parts'',
            JArr [JObj [(''type'', JStr ''text''),
                        (''text'',
                         JStr (''The weather in Berlin is currently 15'' @ [CHR 0xB0]
                                 @ ''C and partly cloudy.''))]])]"

definition mockLlmResponseNoToolCall :: jsval where
  "mockLlmResponseNoToolCall =
     JObj [(''role'', JStr ''assistant''),
           (''parts'',
            JArr [JObj [(''type'', JStr ''text''),
                        (''text'',
                         JStr ''I cannot check the weather without access to weather tools.'')]])]"

definition mockLlmResponseWithMultipleToolCalls :: jsval where
  "mockLlmResponseWithMultipleToolCalls =
     JObj [(''role'', JStr ''assistant''),
           (''parts'',
            JArr [JObj [(''type'', JStr ''tool-GetWeather''),
                        (''toolCallId'', JStr ''tool_call_1''),
                        (''input'', JObj [(''location'', JStr ''Berlin'')]),
                        (''state'', JStr ''input-available'')],
                  JObj [(''type'', JStr ''tool-GetWeather''),
                        (''toolCallId'', JStr ''tool_call_2''),
                        (''input'', JObj [(''location'', JStr ''Munich'')]),
                        (''state'', JStr ''input-available'')]])]"

definition mockFinalResponse :: jsval where
  "mockFinalResponse =
     JObj [(''role'', JStr ''assistant''),
           (''parts'',
            JArr [JObj [(''type'', JStr ''text''),
                        (''text'',
                         JStr (''Berlin: 15'' @ [CHR 0xB0] @ ''C partly cloudy. Munich: 18''
                                 @ [CHR 0xB0] @ ''C sunny.''))]])]"

text \<open>
  A mock of the language model that resolves once to \<open>a\<close>, then once to \<open>b\<close>
  (\<^verbatim>\<open>mockResolvedValueOnce\<close> twice); a call after these resolves to
  \<^verbatim>\<open>undefined\<close>.
\<close>

definition resolvedOnceTwice :: "jsval \<Rightarrow> jsval \<Rightarrow> nat \<Rightarrow> jsval" where
  "resolvedOnceTwice a b n = (if n = 0 then a else if n = 1 then b else JUndefined)"

text \<open>The result the dispatcher gives for the two weather calls with the registered tool.\<close>

definition weatherResults :: jsval where
  "weatherResults =
     JObj [(''parts'',
            JArr [JObj [(''type'', JStr ''tool-GetWeather''),
                        (''toolCallId'', JStr ''tool_call_1''),
                        (''input'', JObj [(''location'', JStr ''Berlin'')]),
                        (''state'', JStr ''output-available''),
                        (''output'',
                         JObj [(''type'', JStr ''text''),
                               (''value'', JStr ''Mostly sunny, 14C, rain in the afternoon.'')])],
                  JObj [(''type'', JStr ''tool-GetWeather''),
                        (''toolCallId'', JStr ''tool_call_2''),
                        (''input'', JObj [(''location'', JStr ''Munich'')]),
                        (''state'', JStr ''output-available''),
                        (''output'',
                         JObj [(''type'', JStr ''text''),
                               (''value'', JStr ''Mostly sunny, 14C, rain in the afternoon.'')])]])]"

text \<open>A run that has just received \<open>m\<close> from the language model for the first time.\<close>

definition after_first_response :: "jsval \<Rightarrow> Run" where
  "after_first_response m =
     \<lparr>place = P_prompt_executed, llmResponse = m, toolCallResult = JUndefined,
      calls = [AiGenerateText_call], history = [P_ready, P_prompt_executed]\<rparr>"

section \<open>Runs that loop\<close>

text \<open>
  The states of a run in which every response of the language model asks for a
  tool: the run is at \<^verbatim>\<open>ready\<close>, or at \<^verbatim>\<open>prompt_executed\<close> holding one
  of the model's responses.
\<close>

definition looping :: "(nat \<Rightarrow> jsval) \<Rightarrow> Run \<Rightarrow> bool" where
  "looping llm r \<longleftrightarrow> place r = P_ready \<or> (place r = P_prompt_executed \<and> llmResponse r \<in> range llm)"

text \<open>A language model that asks for the weather tool on every turn.\<close>

definition always_tool_call :: "nat \<Rightarrow> jsval" where
  "always_tool_call n = messageWithToolCall"

section \<open>Properties of the helper\<close>

lemma startsWith_prefix: "startsWith s p \<longleftrightarrow> (\<exists>r. s = p @ r)"
proof
  assume "startsWith s p"
  then have "s = p @ drop (length p) s"
    by (metis append_take_drop_id startsWith_def)
  then show "\<exists>r. s = p @ r" ..
next
  assume "\<exists>r. s = p @ r"
  then show "startsWith s p"
    by (auto simp: startsWith_def)
qed

lemma part_is_tool_part:
  "is_part p \<Longrightarrow> part_is_tool p = Inr (JBool (is_tool_part p))"
  by (cases p) (auto simp: is_part_def part_is_tool_def is_tool_part_def split: jsval.splits option.splits)

lemma Array_some_parts:
  "list_all is_part ps \<Longrightarrow> Array_some part_is_tool ps = Inr (JBool (list_ex is_tool_part ps))"
  by (induction ps) (simp_all add: part_is_tool_part)

lemma isToolCall_message:
  "is_message m \<Longrightarrow> isToolCall m = Inr (JBool (has_tool_part m))"
  by (cases m)
     (auto simp: is_message_def isToolCall_def has_tool_part_def msg_parts_def Array_some_parts
           split: jsval.splits option.splits)

lemma isToolCall_nullish:
  "isToolCall JUndefined = Inr JUndefined" "isToolCall JNull = Inr JUndefined"
  by (simp_all add: isToolCall_def)

text \<open>
  Outside the data model the loop of \<^verbatim>\<open>some\<close> decides: a part without a
  \<^verbatim>\<open>type\<close> raises when it is reached, and is never reached after a tool part.
\<close>

lemma isToolCall_malformed_part:
  "isToolCall (JObj [(''parts'', JArr [JObj [(''type'', JStr ''tool-x'')], JObj []])])
     = Inr (JBool True)"
  "isToolCall (JObj [(''parts'', JArr [JObj [], JObj [(''type'', JStr ''tool-x'')]])])
     = Inl TypeError"
  by (simp_all add: isToolCall_def part_is_tool_def startsWith_def)

lemma is_tool_part_iff:
  "is_tool_part p \<longleftrightarrow> (\<exists>t rest. get_prop p ''type'' = JStr t \<and> t = ''tool-'' @ rest)"
  by (cases "get_prop p ''type''") (simp_all add: is_tool_part_def startsWith_prefix)

text \<open>
  C1: for every Message, \<open>isToolCall\<close> returns the boolean that says whether some
  part of the message has a \<^verbatim>\<open>type\<close> string beginning with \<^verbatim>\<open>tool-\<close>; it
  returns \<^verbatim>\<open>false\<close> when the message has no parts.
\<close>

theorem isToolCall_iff_tool_part:
  assumes "is_message m"
  shows "isToolCall m =
           Inr (JBool (\<exists>p\<in>set (msg_parts m). \<exists>t rest.
                         get_prop p ''type'' = JStr t \<and> t = ''tool-'' @ rest))
         \<and> (msg_parts m = [] \<longrightarrow> isToolCall m = Inr (JBool False))"
proof -
  have "has_tool_part m \<longleftrightarrow>
          (\<exists>p\<in>set (msg_parts m). \<exists>t rest. get_prop p ''type'' = JStr t \<and> t = ''tool-'' @ rest)"
    by (simp add: has_tool_part_def list_ex_iff is_tool_part_iff)
  moreover have "msg_parts m = [] \<Longrightarrow> \<not> has_tool_part m"
    by (simp add: has_tool_part_def)
  ultimately show ?thesis
    using isToolCall_message [OF assms] by simp
qed

theorem isToolCall_iff_tool_part_witness:
  "is_message messageWithToolCall \<and> isToolCall messageWithToolCall = Inr (JBool True)
   \<and> is_message (JObj [(''parts'', JArr [])]) \<and> msg_parts (JObj [(''parts'', JArr [])]) = []
   \<and> isToolCall (JObj [(''parts'', JArr [])]) = Inr (JBool False)"
proof -
  have a: "is_message messageWithToolCall"
    by (simp add: messageWithToolCall_def is_message_def is_part_def)
  have b: "is_message (JObj [(''parts'', JArr [])])"
    by (simp add: is_message_def)
  have c: "msg_parts (JObj [(''parts'', JArr [])]) = []"
    by (simp add: msg_parts_def)
  have d: "\<exists>p\<in>set (msg_parts messageWithToolCall). \<exists>t rest.
             get_prop p ''type'' = JStr t \<and> t = ''tool-'' @ rest"
    by (simp add: messageWithToolCall_def msg_parts_def)
  show ?thesis
    using a b c d isToolCall_iff_tool_part [OF a] isToolCall_iff_tool_part [OF b]
    by simp
qed

text \<open>
  C7, as the code has it: for every Message \<open>isToolCall\<close> returns a boolean; for
  \<^verbatim>\<open>undefined\<close> it returns \<^verbatim>\<open>undefined\<close>, which is not a boolean.
\<close>

theorem isToolCall_boolean_on_messages:
  assumes "is_message m"
  shows "returns_boolean (isToolCall m) \<and> isToolCall JUndefined = Inr JUndefined"
  using isToolCall_message [OF assms] by (simp add: isToolCall_nullish)

theorem isToolCall_boolean_on_messages_witness:
  "is_message messageWithoutToolCall \<and> returns_boolean (isToolCall messageWithoutToolCall)
   \<and> isToolCall JUndefined = Inr JUndefined"
proof -
  have a: "is_message messageWithoutToolCall"
    by (simp add: messageWithoutToolCall_def is_message_def is_part_def)
  show ?thesis
    using a isToolCall_boolean_on_messages [OF a] by simp
qed

text \<open>
  C7, as the spec states it, fails at \<^verbatim>\<open>undefined\<close>: the value returned there is
  not a boolean.
\<close>

theorem isToolCall_undefined_not_boolean:
  "\<not> returns_boolean (isToolCall JUndefined)"
  by (simp add: isToolCall_def)

text \<open>
  C8: called with \<^verbatim>\<open>undefined\<close> or with no argument, \<open>isToolCall\<close> raises
  nothing and returns \<^verbatim>\<open>undefined\<close>, a falsy value.
\<close>

theorem isToolCall_undefined_falsy:
  "isToolCall_call [JUndefined] = Inr JUndefined \<and> isToolCall_call [] = Inr JUndefined
   \<and> \<not> truthy JUndefined"
  by (simp add: isToolCall_def)

text \<open>
  C10: the guard covers the message only. A message that is neither
  \<^verbatim>\<open>undefined\<close> nor \<^verbatim>\<open>null\<close> and whose \<^verbatim>\<open>parts\<close> is \<^verbatim>\<open>undefined\<close>
  makes \<open>isToolCall\<close> raise a TypeError.
\<close>

theorem isToolCall_parts_undefined_TypeError:
  assumes "m \<noteq> JUndefined" and "m \<noteq> JNull" and "get_prop m ''parts'' = JUndefined"
  shows "isToolCall m = Inl TypeError"
  using assms by (cases m) (simp_all add: isToolCall_def)

theorem isToolCall_parts_undefined_TypeError_witness:
  "JObj [(''role'', JStr ''assistant'')] \<noteq> JUndefined
   \<and> JObj [(''role'', JStr ''assistant'')] \<noteq> JNull
   \<and> get_prop (JObj [(''role'', JStr ''assistant'')]) ''parts'' = JUndefined
   \<and> isToolCall (JObj [(''role'', JStr ''assistant'')]) = Inl TypeError"
proof -
  have a: "JObj [(''role'', JStr ''assistant'')] \<noteq> JUndefined" by simp
  have b: "JObj [(''role'', JStr ''assistant'')] \<noteq> JNull" by simp
  have c: "get_prop (JObj [(''role'', JStr ''assistant'')]) ''parts'' = JUndefined" by simp
  show ?thesis
    using a b c isToolCall_parts_undefined_TypeError [OF a b c] by simp
qed

section \<open>Properties of the weather tool\<close>

text \<open>
  C3: whatever the arguments, \<open>GetWeather.execute\<close> is fulfilled with the one
  ToolResult of type \<^verbatim>\<open>text\<close> and data
  \<^verbatim>\<open>Mostly sunny, 14C, rain in the afternoon.\<close>; it is never rejected.
\<close>

theorem GetWeather_execute_fixed:
  "GetWeather_execute args =
     Inr \<lparr>type = ''text'', data = JStr ''Mostly sunny, 14C, rain in the afternoon.''\<rparr>
   \<and> GetWeather_execute args = GetWeather_execute args'"
  by (simp add: GetWeather_execute_def)

section \<open>Properties of the loop controller\<close>

lemma resolvedOnceTwice_0: "resolvedOnceTwice a b 0 = a"
  by (simp add: resolvedOnceTwice_def)

lemma resolvedOnceTwice_1: "resolvedOnceTwice a b (Suc 0) = b"
  by (simp add: resolvedOnceTwice_def)

lemma fixtures_messages:
  "is_message mockLlmResponseWithToolCall" "is_message mockFinalLlmResponse"
  "is_message mockLlmResponseNoToolCall" "is_message mockLlmResponseWithMultipleToolCalls"
  "is_message mockFinalResponse" "is_message messageWithToolCall" "is_message messageWithoutToolCall"
  by (simp_all add: is_message_def is_part_def mockLlmResponseWithToolCall_def
      mockFinalLlmResponse_def mockLlmResponseNoToolCall_def
      mockLlmResponseWithMultipleToolCalls_def mockFinalResponse_def
      messageWithToolCall_def messageWithoutToolCall_def)

lemma fixtures_tool_parts:
  "filter is_tool_part (msg_parts mockLlmResponseWithToolCall) = msg_parts mockLlmResponseWithToolCall"
  "filter is_tool_part (msg_parts mockLlmResponseWithMultipleToolCalls) = msg_parts mockLlmResponseWithMultipleToolCalls"
  "filter is_tool_part (msg_parts mockFinalLlmResponse) = []"
  "filter is_tool_part (msg_parts mockLlmResponseNoToolCall) = []"
  "filter is_tool_part (msg_parts mockFinalResponse) = []"
  "filter is_tool_part (msg_parts messageWithToolCall) = msg_parts messageWithToolCall"
  "filter is_tool_part (msg_parts messageWithoutToolCall) = []"
  by (simp_all add: msg_parts_def is_tool_part_def startsWith_def mockLlmResponseWithToolCall_def
      mockFinalLlmResponse_def mockLlmResponseNoToolCall_def
      mockLlmResponseWithMultipleToolCalls_def mockFinalResponse_def
      messageWithToolCall_def messageWithoutToolCall_def)

lemma has_tool_part_filter: "has_tool_part m \<longleftrightarrow> filter is_tool_part (msg_parts m) \<noteq> []"
  by (simp add: has_tool_part_def list_ex_iff filter_empty_conv)

lemma step_ready:
  "place r = P_ready \<Longrightarrow> step llm dsp r =
     Next (r\<lparr>llmResponse := llm (llm_calls r), calls := calls r @ [AiGenerateText_call],
             place := P_prompt_executed, history := history r @ [P_prompt_executed]\<rparr>)"
  by (simp add: step_def transitions_def)

lemma step_prompt_executed:
  "place r = P_prompt_executed \<Longrightarrow> step llm dsp r =
     (case isToolCall (llmResponse r) of
        Inl e \<Rightarrow> Fail e
      | Inr v \<Rightarrow>
          if truthy v
          then Next (r\<lparr>toolCallResult := dsp (llmResponse r),
                       calls := calls r @ [DelegateToolCall_call (llmResponse r)],
                       place := P_ready, history := history r @ [P_ready]\<rparr>)
          else Next (r\<lparr>place := P_end, history := history r @ [P_end]\<rparr>))"
  by (simp add: step_def transitions_def split: sum.splits)

lemma step_end: "place r = P_end \<Longrightarrow> step llm dsp r = Halt"
  by (simp add: step_def transitions_def)

text \<open>
  C2: from \<^verbatim>\<open>prompt_executed\<close> the controller moves to \<^verbatim>\<open>ready\<close> exactly
  when \<open>isToolCall\<close> returns a truthy value on the latest response, and then it has
  called the dispatcher once with that response and stored the result; it moves to
  \<^verbatim>\<open>end\<close> exactly when \<open>isToolCall\<close> returns a falsy value, and then it has
  called nothing.
\<close>

theorem route_from_prompt_executed:
  assumes "place r = P_prompt_executed"
  shows "((\<exists>r'. step llm dsp r = Next r' \<and> place r' = P_ready)
            \<longleftrightarrow> (\<exists>v. isToolCall (llmResponse r) = Inr v \<and> truthy v))
       \<and> ((\<exists>r'. step llm dsp r = Next r' \<and> place r' = P_end)
            \<longleftrightarrow> (\<exists>v. isToolCall (llmResponse r) = Inr v \<and> \<not> truthy v))
       \<and> ((\<exists>r'. step llm dsp r = Next r' \<and> place r' = P_ready)
            \<longrightarrow> step llm dsp r =
                  Next (r\<lparr>toolCallResult := dsp (llmResponse r),
                          calls := calls r @ [DelegateToolCall_call (llmResponse r)],
                          place := P_ready, history := history r @ [P_ready]\<rparr>))
       \<and> ((\<exists>r'. step llm dsp r = Next r' \<and> place r' = P_end)
            \<longrightarrow> step llm dsp r = Next (r\<lparr>place := P_end, history := history r @ [P_end]\<rparr>))"
  by (cases "isToolCall (llmResponse r)") (auto simp: step_prompt_executed [OF assms])

theorem route_from_prompt_executed_witness:
  "place (after_first_response messageWithToolCall) = P_prompt_executed
   \<and> isToolCall (llmResponse (after_first_response messageWithToolCall)) = Inr (JBool True)
   \<and> step (\<lambda>n. messageWithToolCall) (\<lambda>m. JNull) (after_first_response messageWithToolCall)
       = Next ((after_first_response messageWithToolCall)
                 \<lparr>toolCallResult := JNull,
                   calls := [AiGenerateText_call, DelegateToolCall_call messageWithToolCall],
                   place := P_ready, history := [P_ready, P_prompt_executed, P_ready]\<rparr>)
   \<and> place (after_first_response messageWithoutToolCall) = P_prompt_executed
   \<and> isToolCall (llmResponse (after_first_response messageWithoutToolCall)) = Inr (JBool False)
   \<and> step (\<lambda>n. messageWithoutToolCall) (\<lambda>m. JNull) (after_first_response messageWithoutToolCall)
       = Next ((after_first_response messageWithoutToolCall)
                 \<lparr>place := P_end, history := [P_ready, P_prompt_executed, P_end]\<rparr>)"
proof -
  have a: "place (after_first_response messageWithToolCall) = P_prompt_executed"
    by (simp add: after_first_response_def)
  have b: "place (after_first_response messageWithoutToolCall) = P_prompt_executed"
    by (simp add: after_first_response_def)
  have c: "isToolCall (llmResponse (after_first_response messageWithToolCall)) = Inr (JBool True)"
    by (simp add: after_first_response_def isToolCall_message fixtures_messages
        has_tool_part_filter fixtures_tool_parts)
       (simp add: msg_parts_def messageWithToolCall_def)
  have d: "isToolCall (llmResponse (after_first_response messageWithoutToolCall)) = Inr (JBool False)"
    by (simp add: after_first_response_def isToolCall_message fixtures_messages
        has_tool_part_filter fixtures_tool_parts)
  from route_from_prompt_executed [OF a, of "\<lambda>n. messageWithToolCall" "\<lambda>m. JNull"]
    route_from_prompt_executed [OF b, of "\<lambda>n. messageWithoutToolCall" "\<lambda>m. JNull"] a b c d
  show ?thesis
    by (simp add: after_first_response_def)
qed


lemma process_Next: "step llm dsp r = Next r' \<Longrightarrow> process llm dsp r = process llm dsp r'"
  by (subst process.simps) simp

lemma process_Halt: "step llm dsp r = Halt \<Longrightarrow> process llm dsp r = Some (Inr r)"
  by (subst process.simps) simp

lemma process_Fail: "step llm dsp r = Fail e \<Longrightarrow> process llm dsp r = Some (Inl e)"
  by (subst process.simps) simp

lemma process_ends_after_tool_call:
  assumes "isToolCall (llm 0) = Inr v0" and "truthy v0"
    and "isToolCall (llm 1) = Inr v1" and "\<not> truthy v1"
  shows "process llm dsp initial =
           Some (Inr \<lparr>place = P_end, llmResponse = llm 1, toolCallResult = dsp (llm 0),
                      calls = [AiGenerateText_call, DelegateToolCall_call (llm 0), AiGenerateText_call],
                      history = [P_ready, P_prompt_executed, P_ready, P_prompt_executed, P_end]\<rparr>)"
proof -
  define r1 where "r1 = \<lparr>place = P_prompt_executed, llmResponse = llm 0,
     toolCallResult = JUndefined, calls = [AiGenerateText_call],
     history = [P_ready, P_prompt_executed]\<rparr>"
  define r2 where "r2 = \<lparr>place = P_ready, llmResponse = llm 0,
     toolCallResult = dsp (llm 0), calls = [AiGenerateText_call, DelegateToolCall_call (llm 0)],
     history = [P_ready, P_prompt_executed, P_ready]\<rparr>"
  define r3 where "r3 = \<lparr>place = P_prompt_executed, llmResponse = llm 1,
     toolCallResult = dsp (llm 0),
     calls = [AiGenerateText_call, DelegateToolCall_call (llm 0), AiGenerateText_call],
     history = [P_ready, P_prompt_executed, P_ready, P_prompt_executed]\<rparr>"
  define r4 where "r4 = \<lparr>place = P_end, llmResponse = llm 1,
     toolCallResult = dsp (llm 0),
     calls = [AiGenerateText_call, DelegateToolCall_call (llm 0), AiGenerateText_call],
     history = [P_ready, P_prompt_executed, P_ready, P_prompt_executed, P_end]\<rparr>"
  have s1: "step llm dsp initial = Next r1"
    by (simp add: step_ready initial_def llm_calls_def r1_def)
  have s2: "step llm dsp r1 = Next r2"
    by (simp add: step_prompt_executed r1_def r2_def assms(1,2))
  have s3: "step llm dsp r2 = Next r3"
    by (simp add: step_ready llm_calls_def r2_def r3_def)
  have a3: "isToolCall (llm (Suc 0)) = Inr v1"
    using assms(3) by simp
  have s4: "step llm dsp r3 = Next r4"
    by (simp add: step_prompt_executed r3_def r4_def a3 assms(4))
  have s5: "step llm dsp r4 = Halt"
    by (simp add: step_end r4_def)
  have "process llm dsp initial = process llm dsp r1" by (rule process_Next [OF s1])
  also have "\<dots> = process llm dsp r2" by (rule process_Next [OF s2])
  also have "\<dots> = process llm dsp r3" by (rule process_Next [OF s3])
  also have "\<dots> = process llm dsp r4" by (rule process_Next [OF s4])
  also have "\<dots> = Some (Inr r4)" by (rule process_Halt [OF s5])
  finally show ?thesis by (simp add: r4_def)
qed

lemma process_ends_without_tool_call:
  assumes "isToolCall (llm 0) = Inr v0" and "\<not> truthy v0"
  shows "process llm dsp initial =
           Some (Inr \<lparr>place = P_end, llmResponse = llm 0, toolCallResult = JUndefined,
                      calls = [AiGenerateText_call],
                      history = [P_ready, P_prompt_executed, P_end]\<rparr>)"
proof -
  define r1 where "r1 = \<lparr>place = P_prompt_executed, llmResponse = llm 0,
     toolCallResult = JUndefined, calls = [AiGenerateText_call],
     history = [P_ready, P_prompt_executed]\<rparr>"
  define r2 where "r2 = \<lparr>place = P_end, llmResponse = llm 0,
     toolCallResult = JUndefined, calls = [AiGenerateText_call],
     history = [P_ready, P_prompt_executed, P_end]\<rparr>"
  have s1: "step llm dsp initial = Next r1"
    by (simp add: step_ready initial_def llm_calls_def r1_def)
  have s2: "step llm dsp r1 = Next r2"
    by (simp add: step_prompt_executed r1_def r2_def assms)
  have s3: "step llm dsp r2 = Halt"
    by (simp add: step_end r2_def)
  have "process llm dsp initial = process llm dsp r1" by (rule process_Next [OF s1])
  also have "\<dots> = process llm dsp r2" by (rule process_Next [OF s2])
  also have "\<dots> = Some (Inr r2)" by (rule process_Halt [OF s3])
  finally show ?thesis by (simp add: r2_def)
qed

text \<open>
  C4: when the first response is a Message with exactly one tool-call part and the
  second a Message with none, the run ends after two calls of the language model
  and one call of the dispatcher, having visited \<^verbatim>\<open>ready\<close>,
  \<^verbatim>\<open>prompt_executed\<close>, \<^verbatim>\<open>ready\<close>, \<^verbatim>\<open>prompt_executed\<close>, \<^verbatim>\<open>end\<close>.
\<close>

theorem tool_call_then_answer:
  assumes "is_message (llm 0)" and "length (filter is_tool_part (msg_parts (llm 0))) = 1"
    and "is_message (llm 1)" and "\<not> has_tool_part (llm 1)"
  shows "\<exists>r. process llm dsp initial = Some (Inr r)
           \<and> llm_calls r = 2 \<and> dispatch_calls r = [llm 0]
           \<and> calls r = [AiGenerateText_call, DelegateToolCall_call (llm 0), AiGenerateText_call]
           \<and> history r = [P_ready, P_prompt_executed, P_ready, P_prompt_executed, P_end]"
proof -
  from assms(2) have "has_tool_part (llm 0)"
    by (auto simp: has_tool_part_filter)
  with assms(1) have a: "isToolCall (llm 0) = Inr (JBool True)" "truthy (JBool True)"
    by (simp_all add: isToolCall_message)
  from assms(3,4) have b: "isToolCall (llm 1) = Inr (JBool False)" "\<not> truthy (JBool False)"
    by (simp_all add: isToolCall_message)
  show ?thesis
    using process_ends_after_tool_call [of llm "JBool True" "JBool False" dsp, OF a b]
    by (simp add: llm_calls_def dispatch_calls_def)
qed

theorem tool_call_then_answer_witness:
  "is_message (resolvedOnceTwice mockLlmResponseWithToolCall mockFinalLlmResponse 0)
   \<and> length (filter is_tool_part
        (msg_parts (resolvedOnceTwice mockLlmResponseWithToolCall mockFinalLlmResponse 0))) = 1
   \<and> is_message (resolvedOnceTwice mockLlmResponseWithToolCall mockFinalLlmResponse 1)
   \<and> \<not> has_tool_part (resolvedOnceTwice mockLlmResponseWithToolCall mockFinalLlmResponse 1)
   \<and> (\<exists>r. process (resolvedOnceTwice mockLlmResponseWithToolCall mockFinalLlmResponse)
              (\<lambda>m. mockToolCallResult) initial = Some (Inr r)
           \<and> llm_calls r = 2 \<and> dispatch_calls r = [mockLlmResponseWithToolCall]
           \<and> history r = [P_ready, P_prompt_executed, P_ready, P_prompt_executed, P_end])"
proof -
  let ?llm = "resolvedOnceTwice mockLlmResponseWithToolCall mockFinalLlmResponse"
  have a: "is_message (?llm 0)"
    by (simp add: resolvedOnceTwice_0 fixtures_messages)
  have b: "length (filter is_tool_part (msg_parts (?llm 0))) = 1"
    by (simp add: resolvedOnceTwice_0 fixtures_tool_parts)
       (simp add: msg_parts_def mockLlmResponseWithToolCall_def)
  have c: "is_message (?llm 1)"
    by (simp add: resolvedOnceTwice_1 fixtures_messages)
  have d: "\<not> has_tool_part (?llm 1)"
    by (simp add: resolvedOnceTwice_1 has_tool_part_filter fixtures_tool_parts)
  from tool_call_then_answer [OF a b c d, of "\<lambda>m. mockToolCallResult"]
  have "\<exists>r. process ?llm (\<lambda>m. mockToolCallResult) initial = Some (Inr r)
           \<and> llm_calls r = 2 \<and> dispatch_calls r = [mockLlmResponseWithToolCall]
           \<and> history r = [P_ready, P_prompt_executed, P_ready, P_prompt_executed, P_end]"
    by (auto simp: resolvedOnceTwice_0)
  with a b c d show ?thesis by blast
qed

text \<open>
  C5: when the first response is a Message without a tool-call part, the run ends
  after one call of the language model and no call of the dispatcher, having
  visited \<^verbatim>\<open>ready\<close>, \<^verbatim>\<open>prompt_executed\<close>, \<^verbatim>\<open>end\<close>, with \<^verbatim>\<open>ready\<close>
  visited once.
\<close>

theorem answer_without_tool_call:
  assumes "is_message (llm 0)" and "\<not> has_tool_part (llm 0)"
  shows "\<exists>r. process llm dsp initial = Some (Inr r)
           \<and> llm_calls r = 1 \<and> dispatch_calls r = [] \<and> calls r = [AiGenerateText_call]
           \<and> history r = [P_ready, P_prompt_executed, P_end]
           \<and> length (filter (\<lambda>p. p = P_ready) (history r)) = 1"
proof -
  from assms have a: "isToolCall (llm 0) = Inr (JBool False)" "\<not> truthy (JBool False)"
    by (simp_all add: isToolCall_message)
  show ?thesis
    using process_ends_without_tool_call [of llm "JBool False" dsp, OF a]
    by (simp add: llm_calls_def dispatch_calls_def)
qed

theorem answer_without_tool_call_witness:
  "is_message mockLlmResponseNoToolCall \<and> \<not> has_tool_part mockLlmResponseNoToolCall
   \<and> (\<exists>r. process (\<lambda>n. mockLlmResponseNoToolCall) (\<lambda>m. JUndefined) initial = Some (Inr r)
           \<and> llm_calls r = 1 \<and> dispatch_calls r = []
           \<and> history r = [P_ready, P_prompt_executed, P_end])"
proof -
  have a: "is_message ((\<lambda>n::nat. mockLlmResponseNoToolCall) 0)"
    by (simp add: fixtures_messages)
  have b: "\<not> has_tool_part ((\<lambda>n::nat. mockLlmResponseNoToolCall) 0)"
    by (simp add: has_tool_part_filter fixtures_tool_parts)
  from answer_without_tool_call [OF a b, of "\<lambda>m. JUndefined"] a b
  show ?thesis by auto
qed

lemma execute_part_output:
  "execute_part tools p = Inr out \<Longrightarrow> \<exists>r. out = output_part p r"
  by (auto simp: execute_part_def split: jsval.splits option.splits sum.splits)

lemma dispatch_parts_outputs:
  "dispatch_parts tools ps = Inr outs \<Longrightarrow>
     list_all2 (\<lambda>p out. \<exists>r. out = output_part p r) (filter is_tool_part ps) outs"
proof (induction ps arbitrary: outs)
  case Nil
  then show ?case by simp
next
  case (Cons p ps)
  show ?case
  proof (cases "is_tool_part p")
    case False
    with Cons show ?thesis by simp
  next
    case True
    with Cons.prems obtain out rest
      where out: "execute_part tools p = Inr out"
        and rest: "dispatch_parts tools ps = Inr rest"
        and outs: "outs = out # rest"
      by (auto split: sum.splits)
    from Cons.IH [OF rest] execute_part_output [OF out] True outs
    show ?thesis by simp
  qed
qed

lemma output_part_fields:
  "get_prop (output_part p r) ''toolCallId'' = get_prop p ''toolCallId''"
  "get_prop (output_part p r) ''type'' = get_prop p ''type''"
  "get_prop (output_part p r) ''state'' = JStr ''output-available''"
  "get_prop (output_part p r) ''output'' = JObj [(''type'', JStr (type r)), (''value'', data r)]"
  by (simp_all add: output_part_def)

lemma DelegateToolCall_execute_two:
  assumes "filter is_tool_part (msg_parts m) = [p1, p2]"
    and "DelegateToolCall_execute tools m = Inr res"
  shows "\<exists>r1 r2. msg_parts res = [output_part p1 r1, output_part p2 r2]"
proof -
  from assms(2) obtain outs
    where outs: "dispatch_parts tools (msg_parts m) = Inr outs"
      and res: "res = JObj [(''parts'', JArr outs)]"
    by (auto simp: DelegateToolCall_execute_def split: sum.splits)
  from dispatch_parts_outputs [OF outs] assms(1)
  have "list_all2 (\<lambda>p out. \<exists>r. out = output_part p r) [p1, p2] outs" by simp
  then obtain r1 r2 where "outs = [output_part p1 r1, output_part p2 r2]"
    by (auto simp: list_all2_Cons1)
  with res show ?thesis by (auto simp: msg_parts_def)
qed

text \<open>
  C6: when the first response is a Message with two tool-call parts and the second a
  Message with none, the run calls the dispatcher once, with the whole first
  response; the dispatcher's result has two parts, the outputs of the two tool-call
  parts in input order, each with the tool-call id and type of its input and the
  state \<^verbatim>\<open>output-available\<close>; the run then calls the language model again and
  ends.
\<close>

theorem two_tool_calls_one_dispatch:
  assumes "is_message (llm 0)" and "filter is_tool_part (msg_parts (llm 0)) = [p1, p2]"
    and "DelegateToolCall_execute tools (llm 0) = Inr res" and "dsp (llm 0) = res"
    and "is_message (llm 1)" and "\<not> has_tool_part (llm 1)"
  shows "\<exists>r out1 out2. process llm dsp initial = Some (Inr r) \<and> place r = P_end
           \<and> calls r = [AiGenerateText_call, DelegateToolCall_call (llm 0), AiGenerateText_call]
           \<and> dispatch_calls r = [llm 0] \<and> llmResponse r = llm 1
           \<and> toolCallResult r = res \<and> msg_parts res = [out1, out2]
           \<and> get_prop out1 ''toolCallId'' = get_prop p1 ''toolCallId''
           \<and> get_prop out2 ''toolCallId'' = get_prop p2 ''toolCallId''
           \<and> get_prop out1 ''type'' = get_prop p1 ''type''
           \<and> get_prop out2 ''type'' = get_prop p2 ''type''
           \<and> get_prop out1 ''state'' = JStr ''output-available''
           \<and> get_prop out2 ''state'' = JStr ''output-available''"
proof -
  from assms(2) have "has_tool_part (llm 0)"
    by (simp add: has_tool_part_filter)
  with assms(1) have a: "isToolCall (llm 0) = Inr (JBool True)" "truthy (JBool True)"
    by (simp_all add: isToolCall_message)
  from assms(5,6) have b: "isToolCall (llm 1) = Inr (JBool False)" "\<not> truthy (JBool False)"
    by (simp_all add: isToolCall_message)
  from DelegateToolCall_execute_two [OF assms(2,3)] obtain r1 r2
    where outs: "msg_parts res = [output_part p1 r1, output_part p2 r2]" by blast
  show ?thesis
    using process_ends_after_tool_call [of llm "JBool True" "JBool False" dsp, OF a b] outs assms(4)
    by (simp add: dispatch_calls_def output_part_fields)
qed

theorem two_tool_calls_one_dispatch_witness:
  "is_message (resolvedOnceTwice mockLlmResponseWithMultipleToolCalls mockFinalResponse 0)
   \<and> length (filter is_tool_part (msg_parts
         (resolvedOnceTwice mockLlmResponseWithMultipleToolCalls mockFinalResponse 0))) = 2
   \<and> DelegateToolCall_execute registered_tools
         (resolvedOnceTwice mockLlmResponseWithMultipleToolCalls mockFinalResponse 0)
       = Inr weatherResults
   \<and> is_message (resolvedOnceTwice mockLlmResponseWithMultipleToolCalls mockFinalResponse 1)
   \<and> \<not> has_tool_part (resolvedOnceTwice mockLlmResponseWithMultipleToolCalls mockFinalResponse 1)
   \<and> (\<exists>r. process (resolvedOnceTwice mockLlmResponseWithMultipleToolCalls mockFinalResponse)
              (\<lambda>m. weatherResults) initial = Some (Inr r)
           \<and> place r = P_end
           \<and> dispatch_calls r = [mockLlmResponseWithMultipleToolCalls]
           \<and> toolCallResult r = weatherResults)"
proof -
  let ?llm = "resolvedOnceTwice mockLlmResponseWithMultipleToolCalls mockFinalResponse"
  have a: "is_message (?llm 0)"
    by (simp add: resolvedOnceTwice_0 fixtures_messages)
  have b: "filter is_tool_part (msg_parts (?llm 0)) =
      [JObj [(''type'', JStr ''tool-GetWeather''), (''toolCallId'', JStr ''tool_call_1''),
             (''input'', JObj [(''location'', JStr ''Berlin'')]),
             (''state'', JStr ''input-available'')],
       JObj [(''type'', JStr ''tool-GetWeather''), (''toolCallId'', JStr ''tool_call_2''),
             (''input'', JObj [(''location'', JStr ''Munich'')]),
             (''state'', JStr ''input-available'')]]"
    by (simp add: resolvedOnceTwice_0 fixtures_tool_parts)
       (simp add: msg_parts_def mockLlmResponseWithMultipleToolCalls_def)
  have c: "DelegateToolCall_execute registered_tools (?llm 0) = Inr weatherResults"
    by (simp add: resolvedOnceTwice_0 DelegateToolCall_execute_def msg_parts_def
        mockLlmResponseWithMultipleToolCalls_def is_tool_part_def startsWith_def
        execute_part_def registered_tools_def GetWeather_execute_def output_part_def
        weatherResults_def)
  have d: "(\<lambda>m. weatherResults) (?llm 0) = weatherResults" by simp
  have e: "is_message (?llm 1)"
    by (simp add: resolvedOnceTwice_1 fixtures_messages)
  have f: "\<not> has_tool_part (?llm 1)"
    by (simp add: resolvedOnceTwice_1 has_tool_part_filter fixtures_tool_parts)
  from two_tool_calls_one_dispatch [OF a b c d e f]
  have "\<exists>r. process ?llm (\<lambda>m. weatherResults) initial = Some (Inr r) \<and> place r = P_end
           \<and> dispatch_calls r = [mockLlmResponseWithMultipleToolCalls]
           \<and> toolCallResult r = weatherResults"
    by (auto simp: resolvedOnceTwice_0)
  moreover from b have "length (filter is_tool_part (msg_parts (?llm 0))) = 2" by simp
  ultimately show ?thesis using a c e f by blast
qed

lemma looping_step:
  assumes "\<forall>n. \<exists>v. isToolCall (llm n) = Inr v \<and> truthy v" and "looping llm r"
  shows "\<exists>r'. step llm dsp r = Next r' \<and> looping llm r'"
proof (cases "place r = P_ready")
  case True
  then show ?thesis by (simp add: step_ready looping_def)
next
  case False
  with assms(2) obtain k where pe: "place r = P_prompt_executed" and k: "llmResponse r = llm k"
    by (auto simp: looping_def)
  from assms(1) obtain v where "isToolCall (llm k) = Inr v" "truthy v" by blast
  then show ?thesis by (simp add: step_prompt_executed [OF pe] k looping_def)
qed

lemma looping_process:
  assumes p: "process llm dsp r = Some y"
    and all: "\<forall>n. \<exists>v. isToolCall (llm n) = Inr v \<and> truthy v"
    and l: "looping llm r"
  shows False
proof -
  have "(\<forall>n. \<exists>v. isToolCall (llm n) = Inr v \<and> truthy v) \<longrightarrow> \<not> looping llm r"
  proof (rule process.raw_induct
      [where P = "\<lambda>llm dsp r y. (\<forall>n. \<exists>v. isToolCall (llm n) = Inr v \<and> truthy v) \<longrightarrow> \<not> looping llm r",
        OF _ p])
    fix process' :: "(nat \<Rightarrow> jsval) \<Rightarrow> (jsval \<Rightarrow> jsval) \<Rightarrow> Run \<Rightarrow> (js_error + Run) option"
    fix llm dsp r y
    assume IH: "\<And>llm dsp r y. process' llm dsp r = Some y \<Longrightarrow>
        (\<forall>n. \<exists>v. isToolCall (llm n) = Inr v \<and> truthy v) \<longrightarrow> \<not> looping llm r"
      and eq: "(case step llm dsp r of Next r' \<Rightarrow> process' llm dsp r'
                | Halt \<Rightarrow> Some (Inr r) | Fail e \<Rightarrow> Some (Inl e)) = Some y"
    show "(\<forall>n. \<exists>v. isToolCall (llm n) = Inr v \<and> truthy v) \<longrightarrow> \<not> looping llm r"
    proof (intro impI notI)
      assume a: "\<forall>n. \<exists>v. isToolCall (llm n) = Inr v \<and> truthy v" and b: "looping llm r"
      from looping_step [OF a b] obtain r'
        where r': "step llm dsp r = Next r'" "looping llm r'" by blast
      from eq r'(1) have "process' llm dsp r' = Some y" by simp
      from IH [OF this] a r'(2) show False by blast
    qed
  qed
  with all l show False by blast
qed

lemma never_ends:
  assumes "\<forall>n. \<exists>v. isToolCall (llm n) = Inr v \<and> truthy v"
  shows "process llm dsp initial = None"
proof (cases "process llm dsp initial")
  case None
  then show ?thesis .
next
  case (Some y)
  have "looping llm initial" by (simp add: looping_def initial_def)
  from looping_process [OF Some assms this] show ?thesis ..
qed

lemma looping_steps:
  assumes "\<forall>n. \<exists>v. isToolCall (llm n) = Inr v \<and> truthy v"
  shows "looping llm r \<Longrightarrow> \<exists>r'. steps n llm dsp r = Next r' \<and> looping llm r'"
proof (induction n arbitrary: r)
  case 0
  then show ?case by simp
next
  case (Suc n)
  from looping_step [OF assms Suc.prems] obtain r1
    where r1: "step llm dsp r = Next r1" "looping llm r1" by blast
  from Suc.IH [OF r1(2)] r1(1) show ?case by simp
qed

text \<open>
  C9: the loop has no bound. There is a sequence of responses, each a Message with a
  tool-call part, for which the run never returns, whatever the dispatcher answers:
  every number of transitions can be taken, and none of them reaches \<^verbatim>\<open>end\<close>.
\<close>

theorem unbounded_loop:
  "\<exists>llm. (\<forall>n. is_message (llm n) \<and> has_tool_part (llm n))
     \<and> (\<forall>dsp. process llm dsp initial = None
           \<and> (\<forall>n. \<exists>r. steps n llm dsp initial = Next r \<and> place r \<noteq> P_end))"
proof -
  have m: "is_message messageWithToolCall"
    by (simp add: messageWithToolCall_def is_message_def is_part_def)
  have t: "has_tool_part messageWithToolCall"
    by (simp add: messageWithToolCall_def has_tool_part_def msg_parts_def is_tool_part_def
        startsWith_def)
  have all: "\<forall>n. \<exists>v. isToolCall (always_tool_call n) = Inr v \<and> truthy v"
    using isToolCall_message [OF m] t by (simp add: always_tool_call_def)
  have init: "looping always_tool_call initial"
    by (simp add: looping_def initial_def)
  have "process always_tool_call dsp initial = None" for dsp
    by (rule never_ends [OF all])
  moreover have "\<exists>r. steps n always_tool_call dsp initial = Next r \<and> place r \<noteq> P_end" for dsp n
    using looping_steps [OF all init, of n dsp] by (auto simp: looping_def)
  ultimately show ?thesis
    using m t by (intro exI [of _ always_tool_call]) (simp add: always_tool_call_def)
qed

end
